theory Spec2Isabelle
  imports Main "HOL-Library.AList"
begin

section \<open>Values of the parsed SOAP tree\<close>

text \<open>
  \<^verbatim>\<open>callback-server.js\<close> reads the tree that the XML library returns with
  \<^verbatim>\<open>explicitArray: false\<close>: a text-only element is a string (the empty string for an
  empty element), an element with children or XML attributes is an object, a repeated
  element is an array. Reading a missing property gives \<^verbatim>\<open>undefined\<close>; the library
  may resolve with \<^verbatim>\<open>null\<close> for an empty document.

  \<open>JObj kvs\<close> lists the properties a read of the object sees; the first pair with a
  key is the one read.
\<close>

datatype jsval =
    JUndefined
  | JNull
  | JStr string
  | JArr "jsval list"
  | JObj "(string \<times> jsval) list"

datatype error = TypeError | XmlParseError

text \<open>JavaScript truthiness: \<^verbatim>\<open>undefined\<close>, \<^verbatim>\<open>null\<close> and \<^verbatim>\<open>''\<close> are falsy;
  every object and array (also the empty array) is truthy.\<close>

fun truthy :: "jsval \<Rightarrow> bool" where
  "truthy JUndefined = False"
| "truthy JNull = False"
| "truthy (JStr s) = (s \<noteq> [])"
| "truthy (JArr xs) = True"
| "truthy (JObj kvs) = True"

fun nullish :: "jsval \<Rightarrow> bool" where
  "nullish JUndefined = True"
| "nullish JNull = True"
| "nullish (JStr s) = False"
| "nullish (JArr xs) = False"
| "nullish (JObj kvs) = False"

text \<open>
  \<open>getProp v k\<close> is the read \<^verbatim>\<open>v.k\<close> on a value that is neither \<^verbatim>\<open>null\<close> nor
  \<^verbatim>\<open>undefined\<close>, for the property names this program reads (none of them is a
  built-in property of strings, arrays or objects): a string or an array has no such
  property.
\<close>

fun getProp :: "jsval \<Rightarrow> string \<Rightarrow> jsval" where
  "getProp (JObj kvs) k = (case map_of kvs k of Some v \<Rightarrow> v | None \<Rightarrow> JUndefined)"
| "getProp JUndefined k = JUndefined"
| "getProp JNull k = JUndefined"
| "getProp (JStr s) k = JUndefined"
| "getProp (JArr xs) k = JUndefined"

text \<open>\<^verbatim>\<open>v.k\<close>: a TypeError on \<^verbatim>\<open>null\<close> and \<^verbatim>\<open>undefined\<close>.\<close>

definition getMember :: "jsval \<Rightarrow> string \<Rightarrow> error + jsval" where
  "getMember v k = (if nullish v then Inl TypeError else Inr (getProp v k))"

text \<open>\<^verbatim>\<open>v?.k\<close>: \<^verbatim>\<open>undefined\<close> on \<^verbatim>\<open>null\<close> and \<^verbatim>\<open>undefined\<close>.\<close>

definition optChain :: "jsval \<Rightarrow> string \<Rightarrow> jsval" where
  "optChain v k = (if nullish v then JUndefined else getProp v k)"

text \<open>\<^verbatim>\<open>a || b\<close>: the left operand when it is truthy, else the right one.\<close>

definition jsOr :: "jsval \<Rightarrow> jsval \<Rightarrow> jsval" where
  "jsOr a b = (if truthy a then a else b)"

definition NA :: jsval where
  "NA = JStr ''N/A''"

section \<open>What the program takes from its runtime\<close>

text \<open>
  The XML library, the clock and the string conversion of a parsed object are not part of
  \<^verbatim>\<open>callback-server.js\<close>; they are parameters of the model.
  \<^item> \<open>now\<close>: \<^verbatim>\<open>new Date().toISOString()\<close>.
  \<^item> \<open>objectToString\<close>: the string JavaScript converts a parsed object to
    (\<^verbatim>\<open>[object Object]\<close> for an ordinary object), \<open>None\<close> where the conversion
    throws a TypeError (an object without a callable \<^verbatim>\<open>toString\<close>, as one created
    with a null prototype).
  \<^item> \<open>inheritsObjectPrototype\<close>: whether the objects the XML library builds inherit
    from \<^verbatim>\<open>Object.prototype\<close>.
  \<^item> \<open>parseStringPromise\<close>: the library's parser under the options it is given;
    \<open>Inl\<close> is a rejected promise.
  \<^item> \<open>jsonStringify\<close>: \<^verbatim>\<open>JSON.stringify(v, null, 2)\<close> as the console prints it.
\<close>

record parser_options =
  explicitArray :: bool
  ignoreAttrs :: bool
  tagNameProcessors :: "(string \<Rightarrow> string) list"
  attrNameProcessors :: "(string \<Rightarrow> string) list"

record runtime =
  now :: string
  objectToString :: "(string \<times> jsval) list \<Rightarrow> string option"
  inheritsObjectPrototype :: bool
  parseStringPromise :: "parser_options \<Rightarrow> string \<Rightarrow> error + jsval"
  jsonStringify :: "jsval \<Rightarrow> string"

text \<open>
  String conversion (template literals, \<^verbatim>\<open>'' + x\<close> inside chalk, property keys). An
  array is joined with commas, \<^verbatim>\<open>null\<close> and \<^verbatim>\<open>undefined\<close> elements as the empty
  string.
\<close>

fun toStr :: "runtime \<Rightarrow> jsval \<Rightarrow> error + string"
  and joinStr :: "runtime \<Rightarrow> jsval list \<Rightarrow> error + string" where
  "toStr rt JUndefined = Inr ''undefined''"
| "toStr rt JNull = Inr ''null''"
| "toStr rt (JStr s) = Inr s"
| "toStr rt (JObj kvs) =
     (case objectToString rt kvs of None \<Rightarrow> Inl TypeError | Some s \<Rightarrow> Inr s)"
| "toStr rt (JArr xs) = joinStr rt xs"
| "joinStr rt [] = Inr ''''"
| "joinStr rt (x # xs) =
     (case (if nullish x then Inr '''' else toStr rt x) of
        Inl e \<Rightarrow> Inl e
      | Inr s \<Rightarrow>
          (if xs = [] then Inr s
           else (case joinStr rt xs of Inl e \<Rightarrow> Inl e | Inr t \<Rightarrow> Inr (s @ '','' @ t))))"

section \<open>parseXML\<close>

text \<open>
  The XML library \<^verbatim>\<open>xml2js\<close> is a dependency of \<^verbatim>\<open>callback-server.js\<close>, not part
  of it. Its parser is a parameter of the model (\<open>parseStringPromise\<close>). Two things
  follow the library's documentation, because \<^verbatim>\<open>parseXML\<close> selects them by name: the
  processor \<^verbatim>\<open>xml2js.processors.stripPrefix\<close>, and the rule by which the options
  \<^verbatim>\<open>tagNameProcessors\<close> and \<^verbatim>\<open>attrNameProcessors\<close> are applied.

  \<^verbatim>\<open>stripPrefix\<close> is \<^verbatim>\<open>str.replace(/(?!xmlns)^.*:/, '')\<close>: a name that starts with
  \<^verbatim>\<open>xmlns\<close> is kept; otherwise everything up to the last colon of the first line is
  removed.
\<close>

definition lineBreak :: "char \<Rightarrow> bool" where
  "lineBreak c = (c = CHR 0x0A \<or> c = CHR 0x0D)"

definition stripPrefix :: "string \<Rightarrow> string" where
  "stripPrefix str =
     (let line = takeWhile (\<lambda>c. \<not> lineBreak c) str in
      if take 5 str = ''xmlns'' then str
      else if CHR '':'' \<in> set line
        then rev (takeWhile (\<lambda>c. c \<noteq> CHR '':'') (rev line)) @ drop (length line) str
        else str)"

text \<open>The options \<^verbatim>\<open>parseXML\<close> passes to \<^verbatim>\<open>new xml2js.Parser\<close> (lines 16-20); it
  names no attribute-name processor, so the library's default (none) stands.\<close>

definition parserOptions :: parser_options where
  "parserOptions =
     \<lparr>explicitArray = False, ignoreAttrs = False,
      tagNameProcessors = [stripPrefix], attrNameProcessors = []\<rparr>"

text \<open>
  The library's use of the two processor lists: each processor in turn is applied to the
  qualified name as written in the document, \<open>tagNameProcessors\<close> to an element's name
  and \<open>attrNameProcessors\<close> to an attribute's name; the result is the key in the tree.
\<close>

definition processItem :: "(string \<Rightarrow> string) list \<Rightarrow> string \<Rightarrow> string" where
  "processItem processors item = foldl (\<lambda>s f. f s) item processors"

definition elementKey :: "parser_options \<Rightarrow> string \<Rightarrow> string" where
  "elementKey opts qname = processItem (tagNameProcessors opts) qname"

definition attributeKey :: "parser_options \<Rightarrow> string \<Rightarrow> string" where
  "attributeKey opts qname = processItem (attrNameProcessors opts) qname"

text \<open>\<^verbatim>\<open>parseXML\<close> (lines 14-26): the value, and what it prints on the console.\<close>

definition parseXML :: "runtime \<Rightarrow> string \<Rightarrow> jsval \<times> string list" where
  "parseXML rt xmlString =
     (case parseStringPromise rt parserOptions xmlString of
        Inr parsed \<Rightarrow> (parsed, [])
      | Inl e \<Rightarrow> (JNull, [''XML Parse Error:'']))"

section \<open>extractFirmwareStatus\<close>

text \<open>
  \<^verbatim>\<open>status.attributes\<close> starts as \<^verbatim>\<open>{}\<close>. \<open>own\<close> holds its own properties in the
  order they were created; \<open>proto\<close> is \<open>None\<close> while its prototype is
  \<^verbatim>\<open>Object.prototype\<close>.
\<close>

record attr_object =
  own :: "(string \<times> jsval) list"
  proto :: "jsval option"

definition emptyObject :: attr_object where
  "emptyObject = \<lparr>own = [], proto = None\<rparr>"

text \<open>
  Whether an assignment to \<^verbatim>\<open>__proto__\<close> reaches the accessor of
  \<^verbatim>\<open>Object.prototype\<close>: not when the object has such a property of its own, and not
  when its prototype chain no longer ends in \<^verbatim>\<open>Object.prototype\<close>.
\<close>

definition protoAccessor :: "runtime \<Rightarrow> attr_object \<Rightarrow> bool" where
  "protoAccessor rt obj =
     (if ''__proto__'' \<in> set (map fst (own obj)) then False
      else (case proto obj of
              None \<Rightarrow> True
            | Some JNull \<Rightarrow> False
            | Some (JObj kvs) \<Rightarrow> inheritsObjectPrototype rt \<and> map_of kvs ''__proto__'' = None
            | Some v \<Rightarrow> True))"

text \<open>
  \<^verbatim>\<open>obj[key] = v\<close> on that object. The key \<^verbatim>\<open>__proto__\<close> goes to the accessor, which
  replaces the prototype when \<^verbatim>\<open>v\<close> is an object or \<^verbatim>\<open>null\<close> and does nothing
  otherwise; every other key creates the property, or overwrites it in place.
\<close>

definition setProperty :: "runtime \<Rightarrow> attr_object \<Rightarrow> string \<Rightarrow> jsval \<Rightarrow> attr_object" where
  "setProperty rt obj key v =
     (if key = ''__proto__'' \<and> protoAccessor rt obj
      then (case v of
              JObj kvs \<Rightarrow> obj\<lparr>proto := Some v\<rparr>
            | JArr xs \<Rightarrow> obj\<lparr>proto := Some v\<rparr>
            | JNull \<Rightarrow> obj\<lparr>proto := Some v\<rparr>
            | JUndefined \<Rightarrow> obj
            | JStr s \<Rightarrow> obj)
      else obj\<lparr>own := AList.update key v (own obj)\<rparr>)"

text \<open>\<^verbatim>\<open>obj[key]\<close>: the own property, else the one inherited from a parsed object
  that was made the prototype.\<close>

definition getProperty :: "attr_object \<Rightarrow> string \<Rightarrow> jsval" where
  "getProperty obj key =
     (case map_of (own obj) key of
        Some v \<Rightarrow> v
      | None \<Rightarrow> (case proto obj of Some p \<Rightarrow> getProp p key | None \<Rightarrow> JUndefined))"

text \<open>
  \<^verbatim>\<open>Object.keys\<close>: the own keys that are array indices (canonical decimal numerals
  below \<open>2\<^sup>3\<^sup>2 - 1\<close>) in ascending numeric order, then the other keys in creation order.
\<close>

definition decimal :: "string \<Rightarrow> int" where
  "decimal s = foldl (\<lambda>n c. 10 * n + (of_char c - 48)) 0 s"

definition isDigit :: "char \<Rightarrow> bool" where
  "isDigit c = (48 \<le> (of_char c :: int) \<and> (of_char c :: int) \<le> 57)"

definition isArrayIndex :: "string \<Rightarrow> bool" where
  "isArrayIndex s =
     (s \<noteq> [] \<and> list_all isDigit s \<and> (s = ''0'' \<or> hd s \<noteq> CHR ''0'')
      \<and> length s \<le> 10 \<and> decimal s < 4294967295)"

definition objectKeys :: "attr_object \<Rightarrow> string list" where
  "objectKeys obj =
     (let ks = map fst (own obj) in
      sort_key decimal (filter isArrayIndex ks) @ filter (\<lambda>k. \<not> isArrayIndex k) ks)"

record firmware_status =
  accessPointId :: jsval
  serialNumber :: jsval
  online :: jsval
  syncStatus :: jsval
  firmwareUpgradeStatus :: jsval
  timeOfLastFirmwareUpgrade :: jsval
  attributes :: attr_object

text \<open>Lines 52-53: \<^verbatim>\<open>attr.name || attr.Name || attr.NAME\<close>, and the same for the value.\<close>

definition attrName :: "jsval \<Rightarrow> jsval" where
  "attrName attr = jsOr (jsOr (getProp attr ''name'') (getProp attr ''Name'')) (getProp attr ''NAME'')"

definition attrValue :: "jsval \<Rightarrow> jsval" where
  "attrValue attr = jsOr (jsOr (getProp attr ''value'') (getProp attr ''Value'')) (getProp attr ''VALUE'')"

text \<open>The body of \<^verbatim>\<open>attrs.forEach\<close> (lines 51-57). Reading \<^verbatim>\<open>attr.name\<close> throws when
  the entry is \<^verbatim>\<open>null\<close> or \<^verbatim>\<open>undefined\<close>; a name that is not a string is converted
  to the property key.\<close>

definition addAttribute :: "runtime \<Rightarrow> attr_object \<Rightarrow> jsval \<Rightarrow> error + attr_object" where
  "addAttribute rt obj attr =
     (if nullish attr then Inl TypeError
      else if truthy (attrName attr)
        then (case toStr rt (attrName attr) of
                Inl e \<Rightarrow> Inl e
              | Inr key \<Rightarrow> Inr (setProperty rt obj key (attrValue attr)))
        else Inr obj)"

fun forEachAttr :: "runtime \<Rightarrow> attr_object \<Rightarrow> jsval list \<Rightarrow> error + attr_object" where
  "forEachAttr rt obj [] = Inr obj"
| "forEachAttr rt obj (attr # rest) =
     (case addAttribute rt obj attr of
        Inl e \<Rightarrow> Inl e
      | Inr obj' \<Rightarrow> forEachAttr rt obj' rest)"

text \<open>Lines 43-49: the array the loop runs over; empty when the guard of line 43 fails.
  A value that is not an array is wrapped into a one-element array.\<close>

definition attributeEntries :: "jsval \<Rightarrow> jsval list" where
  "attributeEntries accessPoint =
     (let apa = getProp accessPoint ''accessPointAttributes'' in
      if truthy apa \<and> truthy (getProp apa ''attributes'')
      then (case getProp apa ''attributes'' of JArr xs \<Rightarrow> xs | attrs \<Rightarrow> [attrs])
      else [])"

text \<open>\<^verbatim>\<open>extractFirmwareStatus\<close> (lines 29-61); \<open>Inr None\<close> is the returned \<^verbatim>\<open>null\<close>.\<close>

definition extractFirmwareStatus :: "runtime \<Rightarrow> jsval \<Rightarrow> error + firmware_status option" where
  "extractFirmwareStatus rt accessPoint =
     (if \<not> truthy accessPoint then Inr None
      else (case forEachAttr rt emptyObject (attributeEntries accessPoint) of
              Inl e \<Rightarrow> Inl e
            | Inr attrs \<Rightarrow>
                Inr (Some
                  \<lparr>accessPointId = jsOr (getProp accessPoint ''id'') NA,
                   serialNumber = jsOr (getProp accessPoint ''serialNumber'') NA,
                   online = jsOr (getProp accessPoint ''online'') NA,
                   syncStatus = jsOr (getProp accessPoint ''syncStatus'') NA,
                   firmwareUpgradeStatus = jsOr (getProp accessPoint ''firmwareUpgradeStatus'') NA,
                   timeOfLastFirmwareUpgrade =
                     jsOr (getProp accessPoint ''timeOfLastFirmwareUpgrade'') NA,
                   attributes = attrs\<rparr>)))"

section \<open>logCallback\<close>

text \<open>
  The console is the list of the texts printed, one per \<^verbatim>\<open>console.log\<close> call, in
  order. The chalk colour codes and the emoji that open some headings are left out of the
  texts; a line break inside a text is kept. A statement that prints is modelled by the
  text it prints, or by the fault that evaluating it raises; a fault ends the function,
  and what was printed before it stays printed.
\<close>

type_synonym print_step = "error + string"

fun runConsole :: "print_step list \<Rightarrow> string list \<times> error option" where
  "runConsole [] = ([], None)"
| "runConsole (Inl e # rest) = ([], Some e)"
| "runConsole (Inr l # rest) = (l # fst (runConsole rest), snd (runConsole rest))"

text \<open>A template literal \<^verbatim>\<open>`<label>${v}`\<close>.\<close>

definition printLine :: "runtime \<Rightarrow> string \<Rightarrow> jsval \<Rightarrow> print_step" where
  "printLine rt label v = (case toStr rt v of Inl e \<Rightarrow> Inl e | Inr s \<Rightarrow> Inr (label @ s))"

definition firmwareAttrs :: "string list" where
  "firmwareAttrs =
     [''FIRMWARE_VERSION'', ''FIRMWARE_VERSION_INPROGRESS'', ''FIRMWARE_UPLOAD_PERCENTAGE'',
      ''CC_FIRMWARE_VERSION'', ''CC_FIRMWARE_VERSION_INPROGRESS'',
      ''CC_FIRMWARE_UPLOAD_PERCENTAGE'']"

text \<open>Lines 96-100 and 103-107, for one key each.\<close>

definition firmwareAttrLine :: "runtime \<Rightarrow> attr_object \<Rightarrow> string \<Rightarrow> print_step list" where
  "firmwareAttrLine rt attrs key =
     (if truthy (getProperty attrs key)
      then [printLine rt (''   '' @ key @ '': '') (getProperty attrs key)]
      else [])"

definition otherAttrLine :: "runtime \<Rightarrow> attr_object \<Rightarrow> string \<Rightarrow> print_step list" where
  "otherAttrLine rt attrs key =
     (if \<not> List.member firmwareAttrs key
      then [printLine rt (''   '' @ key @ '': '') (getProperty attrs key)]
      else [])"

text \<open>Lines 73-108, on the extracted status.\<close>

definition statusLines :: "runtime \<Rightarrow> firmware_status \<Rightarrow> print_step list" where
  "statusLines rt st =
     [Inr ''Access Point Information:'',
      printLine rt ''   ID: '' (accessPointId st),
      printLine rt ''   Serial: '' (serialNumber st),
      printLine rt ''   Online: '' (online st),
      printLine rt ''   Sync Status: '' (syncStatus st),
      Inr ''\<newline>Firmware Status:'',
      printLine rt ''   Upgrade Status: '' (firmwareUpgradeStatus st),
      printLine rt ''   Last Update: '' (timeOfLastFirmwareUpgrade st)]
     @ (if length (objectKeys (attributes st)) > 0
        then Inr ''\<newline>Attributes:''
             # concat (map (firmwareAttrLine rt (attributes st)) firmwareAttrs)
             @ concat (map (otherAttrLine rt (attributes st)) (objectKeys (attributes st)))
        else [])"

text \<open>Line 123: one entry of \<^verbatim>\<open>logData\<close>.\<close>

definition logDataLine :: "runtime \<Rightarrow> jsval \<Rightarrow> print_step" where
  "logDataLine rt item =
     (case getMember item ''key'' of
        Inl e \<Rightarrow> Inl e
      | Inr k \<Rightarrow>
          (case toStr rt (jsOr k NA) of
             Inl e \<Rightarrow> Inl e
           | Inr ks \<Rightarrow>
               (case getMember item ''value'' of
                  Inl e \<Rightarrow> Inl e
                | Inr v \<Rightarrow>
                    (case toStr rt (jsOr v NA) of
                       Inl e \<Rightarrow> Inl e
                     | Inr vs \<Rightarrow> Inr (''   '' @ ks @ '': '' @ vs)))))"

text \<open>A line \<^verbatim>\<open>`<label>${data.k || 'N/A'}`\<close> (lines 112-114).\<close>

definition fieldLine :: "runtime \<Rightarrow> string \<Rightarrow> jsval \<Rightarrow> string \<Rightarrow> print_step" where
  "fieldLine rt label data k =
     (case getMember data k of
        Inl e \<Rightarrow> Inl e
      | Inr v \<Rightarrow> printLine rt label (jsOr v NA))"

text \<open>Lines 118-121: the array the loop over \<^verbatim>\<open>logData\<close> runs over. A value that is
  not an array is wrapped into a one-element array.\<close>

definition logDataEntries :: "jsval \<Rightarrow> jsval list" where
  "logDataEntries logData = (case logData of JArr xs \<Rightarrow> xs | item \<Rightarrow> [item])"

text \<open>Lines 110-125, on the \<^verbatim>\<open>logEntry\<close> node. \<^verbatim>\<open>data.origin?.logOriginType\<close> reads
  \<^verbatim>\<open>data.origin\<close> first, which throws when \<^verbatim>\<open>data\<close> is \<^verbatim>\<open>undefined\<close>.\<close>

definition eventLines :: "runtime \<Rightarrow> jsval \<Rightarrow> print_step list" where
  "eventLines rt data =
     [Inr ''Event Information:'',
      (case getMember data ''origin'' of
         Inl e \<Rightarrow> Inl e
       | Inr origin \<Rightarrow> printLine rt ''   Origin: '' (jsOr (optChain origin ''logOriginType'') NA)),
      fieldLine rt ''   Family: '' data ''family'',
      fieldLine rt ''   Code: '' data ''code'',
      fieldLine rt ''   Timestamp: '' data ''timeStamp'']
     @ (case getMember data ''logData'' of
          Inl e \<Rightarrow> [Inl e]
        | Inr logData \<Rightarrow>
            (if truthy logData
             then Inr ''\<newline>Log Data:''
                  # map (logDataLine rt) (logDataEntries logData)
             else []))"

definition rule80 :: string where
  "rule80 = replicate 80 (CHR ''='')"

text \<open>\<^verbatim>\<open>logCallback\<close> (lines 64-129): what it prints, and the fault that ended it, if
  any. With a \<^verbatim>\<open>null\<close> status, line 74 throws after the heading of line 73.\<close>

definition logCallback :: "runtime \<Rightarrow> string \<Rightarrow> jsval \<Rightarrow> string list \<times> error option" where
  "logCallback rt type data =
     runConsole
       ([Inr (''\<newline>'' @ rule80),
         Inr (''['' @ now rt @ ''] '' @ type @ '' Callback Received''),
         Inr rule80]
        @ (if type = ''notifyUpdated''
           then (case extractFirmwareStatus rt data of
                   Inl e \<Rightarrow> [Inl e]
                 | Inr None \<Rightarrow> [Inr ''Access Point Information:'', Inl TypeError]
                 | Inr (Some st) \<Rightarrow> statusLines rt st)
           else if type = ''newEvent'' then eventLines rt data
           else [])
        @ [Inr (rule80 @ ''\<newline>'')])"

section \<open>The POST handler\<close>

record request =
  path :: string
  headers :: "(string \<times> string) list"
  body :: string

text \<open>What the handler sends: the status code, the \<^verbatim>\<open>Content-Type\<close> it sets itself
  (\<open>None\<close> when it sets none), the body, and what the request printed.\<close>

record response =
  statusCode :: nat
  contentType :: "string option"
  payload :: string
  console :: "string list"

text \<open>The three template literals of lines 160-165, 172-177 and 184-187, with their
  line breaks and indentation.\<close>

definition notifyUpdatedResponse :: string where
  "notifyUpdatedResponse =
     ''<?xml version=\"1.0\" encoding=\"UTF-8\"?>\<newline><soap:Envelope xmlns:soap=\"http://www.w3.org/2003/05/soap-envelope\">\<newline>  <soap:Body>\<newline>    <ns:notifyUpdatedResponse xmlns:ns=\"http://xml.assaabloy.com/dsr/2.0\"/>\<newline>  </soap:Body>\<newline></soap:Envelope>''"

definition newEventResponse :: string where
  "newEventResponse =
     ''<?xml version=\"1.0\" encoding=\"UTF-8\"?>\<newline><soap:Envelope xmlns:soap=\"http://www.w3.org/2003/05/soap-envelope\">\<newline>  <soap:Body>\<newline>    <ns:newEventResponse xmlns:ns=\"http://xml.assaabloy.com/dsr/2.0\"/>\<newline>  </soap:Body>\<newline></soap:Envelope>''"

definition unknownResponse :: string where
  "unknownResponse =
     ''<?xml version=\"1.0\" encoding=\"UTF-8\"?>\<newline><soap:Envelope xmlns:soap=\"http://www.w3.org/2003/05/soap-envelope\">\<newline>  <soap:Body/>\<newline></soap:Envelope>''"

definition soapContentType :: string where
  "soapContentType = ''application/soap+xml; charset=utf-8''"

text \<open>Lines 190-192, and the \<^verbatim>\<open>catch\<close> of lines 194-197 (the stack trace that
  \<^verbatim>\<open>console.error\<close> prints after the label is left out).\<close>

definition sendSoap :: "string \<Rightarrow> string list \<Rightarrow> response" where
  "sendSoap responseEnvelope printed =
     \<lparr>statusCode = 200, contentType = Some soapContentType, payload = responseEnvelope,
      console = printed\<rparr>"

definition internalError :: "string list \<Rightarrow> response" where
  "internalError printed =
     \<lparr>statusCode = 500, contentType = None, payload = ''Internal Server Error'',
      console = printed @ [''Error processing callback:'']\<rparr>"

text \<open>
  Lines 149-192 with the \<^verbatim>\<open>catch\<close>: the handler from the point where the parsed tree
  is known to be truthy. \<open>console\<close> holds what these lines print.
\<close>

definition dispatch :: "runtime \<Rightarrow> jsval \<Rightarrow> response" where
  "dispatch rt parsed =
     (let envelope = getProp parsed ''Envelope'';
          soapBody = optChain envelope ''Body''
      in if truthy (optChain soapBody ''notifyUpdated'') then
           (let accessPoint = getProp (getProp soapBody ''notifyUpdated'') ''accessPoint'';
                logged = logCallback rt ''notifyUpdated'' accessPoint
            in case snd logged of
                 Some e \<Rightarrow> internalError (fst logged)
               | None \<Rightarrow> sendSoap notifyUpdatedResponse (fst logged))
         else if truthy (optChain soapBody ''newEvent'') then
           (let logEntry = getProp (getProp soapBody ''newEvent'') ''logEntry'';
                logged = logCallback rt ''newEvent'' logEntry
            in case snd logged of
                 Some e \<Rightarrow> internalError (fst logged)
               | None \<Rightarrow> sendSoap newEventResponse (fst logged))
         else
           sendSoap unknownResponse
             [''Unknown callback type'', ''Body: '' @ jsonStringify rt soapBody])"

text \<open>\<^verbatim>\<open>req.headers['action'] || req.headers['soapaction'] || 'unknown'\<close>.\<close>

definition headerOr :: "string option \<Rightarrow> string \<Rightarrow> string" where
  "headerOr h d = (case h of Some s \<Rightarrow> (if s \<noteq> [] then s else d) | None \<Rightarrow> d)"

definition soapActionOf :: "request \<Rightarrow> string" where
  "soapActionOf req =
     headerOr (map_of (headers req) ''action'')
       (headerOr (map_of (headers req) ''soapaction'') ''unknown'')"

text \<open>The handler of \<^verbatim>\<open>app.post('*', ...)\<close> (lines 132-198).\<close>

definition postHandler :: "runtime \<Rightarrow> request \<Rightarrow> response" where
  "postHandler rt req =
     (let received =
            [''\<newline>Received request to: '' @ path req, ''SOAPAction: '' @ soapActionOf req];
          parsed = parseXML rt (body req)
      in if \<not> truthy (fst parsed) then
           \<lparr>statusCode = 400, contentType = None, payload = ''Invalid SOAP'',
            console = received @ snd parsed @ [''Failed to parse SOAP envelope'']\<rparr>
         else
           (let r = dispatch rt (fst parsed)
            in r\<lparr>console := received @ snd parsed @ console r\<rparr>))"

section \<open>The acknowledgements as the specification prints them\<close>


definition specUnrecognizedAck :: string where
  "specUnrecognizedAck =
     ''<?xml version=\"1.0\" encoding=\"UTF-8\"?><soap:Envelope xmlns:soap=\"http://www.w3.org/2003/05/soap-envelope\"><soap:Body/></soap:Envelope>''"

text \<open>A text without its layout: every line break is dropped, with the spaces that
  indent the next line.\<close>

fun withoutLayout :: "bool \<Rightarrow> string \<Rightarrow> string" where
  "withoutLayout indent [] = []"
| "withoutLayout indent (c # cs) =
     (if c = CHR 0x0A then withoutLayout True cs
      else if indent \<and> c = CHR '' '' then withoutLayout True cs
      else c # withoutLayout False cs)"

section \<open>Sample inputs\<close>

text \<open>
  A runtime whose parser resolves with a given tree and whose parsed objects have a null
  prototype (their string conversion throws), and one whose parser rejects every
  document.
\<close>

definition sampleRuntime :: "jsval \<Rightarrow> runtime" where
  "sampleRuntime tree =
     \<lparr>now = ''2024-05-01T10:00:00.000Z'', objectToString = (\<lambda>kvs. None),
      inheritsObjectPrototype = False,
      parseStringPromise = (\<lambda>opts xmlString. Inr tree),
      jsonStringify = (\<lambda>v. ''{...}'')\<rparr>"

definition rejectingRuntime :: runtime where
  "rejectingRuntime =
     \<lparr>now = ''2024-05-01T10:00:00.000Z'', objectToString = (\<lambda>kvs. None),
      inheritsObjectPrototype = False,
      parseStringPromise = (\<lambda>opts xmlString. Inl XmlParseError),
      jsonStringify = (\<lambda>v. ''{...}'')\<rparr>"

definition sampleRequest :: request where
  "sampleRequest =
     \<lparr>path = ''/callback'', headers = [(''soapaction'', ''notify'')], body = ''<a>''\<rparr>"

text \<open>The tree of a document \<^verbatim>\<open><Envelope><Body>...</Body></Envelope>\<close>.\<close>

definition envelopeOf :: "jsval \<Rightarrow> jsval" where
  "envelopeOf soapBody = JObj [(''Envelope'', JObj [(''Body'', soapBody)])]"

text \<open>
  The example of section 8 of the specification: \<^verbatim>\<open>accessPoint.id = "AP-100"\<close>, no
  other field, and the one attribute \<^verbatim>\<open>{Name: "FIRMWARE_VERSION", Value: "2.1.0"}\<close>.
\<close>

definition sampleAccessPoint :: jsval where
  "sampleAccessPoint =
     JObj [(''id'', JStr ''AP-100''),
           (''accessPointAttributes'',
            JObj [(''attributes'',
                   JObj [(''Name'', JStr ''FIRMWARE_VERSION''), (''Value'', JStr ''2.1.0'')])])]"


text \<open>A \<^verbatim>\<open>logEntry\<close> node with one \<^verbatim>\<open>logData\<close> entry.\<close>

definition sampleLogEntry :: jsval where
  "sampleLogEntry =
     JObj [(''family'', JStr ''ALARM''), (''code'', JStr ''17''),
           (''logData'', JObj [(''key'', JStr ''door''), (''value'', JStr ''open'')])]"

text \<open>A body whose only child is an operation this receiver does not know.\<close>

definition unknownTree :: jsval where
  "unknownTree = envelopeOf (JObj [(''ping'', JStr ''1'')])"

text \<open>A well-formed document that is not a SOAP envelope: \<^verbatim>\<open><note>hello</note>\<close>.\<close>

definition noteTree :: jsval where
  "noteTree = JObj [(''note'', JStr ''hello'')]"

text \<open>
  \<^verbatim>\<open><notifyUpdated xmlns="..."/>\<close>: the node is there (an object that holds its XML
  attribute), its \<^verbatim>\<open>accessPoint\<close> child is not. Likewise a \<^verbatim>\<open>newEvent\<close> without
  its \<^verbatim>\<open>logEntry\<close>.
\<close>

definition bareOperation :: jsval where
  "bareOperation = JObj [(''$'', JObj [(''xmlns'', JStr ''http://xml.assaabloy.com/dsr/2.0'')])]"

definition notifyWithoutAccessPoint :: jsval where
  "notifyWithoutAccessPoint = envelopeOf (JObj [(''notifyUpdated'', bareOperation)])"

definition eventWithoutLogEntry :: jsval where
  "eventWithoutLogEntry = envelopeOf (JObj [(''newEvent'', bareOperation)])"


text \<open>A body with both operations, each with its payload.\<close>

definition bothOperations :: jsval where
  "bothOperations =
     JObj [(''notifyUpdated'', JObj [(''accessPoint'', sampleAccessPoint)]),
           (''newEvent'', JObj [(''logEntry'', sampleLogEntry)])]"

definition notifyOnly :: jsval where
  "notifyOnly = JObj [(''notifyUpdated'', JObj [(''accessPoint'', sampleAccessPoint)])]"

text \<open>An \<^verbatim>\<open>accessPoint\<close> node with a given \<^verbatim>\<open>attributes\<close> value.\<close>

definition accessPointWith :: "jsval \<Rightarrow> jsval" where
  "accessPointWith attrs =
     JObj [(''id'', JStr ''AP-100''), (''accessPointAttributes'', JObj [(''attributes'', attrs)])]"

text \<open>The status extracted from such a node when its attribute map is \<open>m\<close>.\<close>

definition statusWith :: "(string \<times> jsval) list \<Rightarrow> firmware_status" where
  "statusWith m =
     \<lparr>accessPointId = JStr ''AP-100'', serialNumber = JStr ''N/A'', online = JStr ''N/A'',
      syncStatus = JStr ''N/A'', firmwareUpgradeStatus = JStr ''N/A'',
      timeOfLastFirmwareUpgrade = JStr ''N/A'', attributes = \<lparr>own = m, proto = None\<rparr>\<rparr>"

text \<open>Two entries with the name \<^verbatim>\<open>__proto__\<close>.\<close>

definition protoEntries :: jsval where
  "protoEntries =
     JArr [JObj [(''name'', JStr ''__proto__''), (''value'', JStr ''a'')],
           JObj [(''name'', JStr ''__proto__''), (''value'', JStr ''b'')]]"

text \<open>Two entries with the name \<^verbatim>\<open>MODE\<close>, in different spellings of the keys.\<close>

definition repeatedEntries :: jsval where
  "repeatedEntries =
     JArr [JObj [(''name'', JStr ''MODE''), (''value'', JStr ''a'')],
           JObj [(''NAME'', JStr ''MODE''), (''VALUE'', JStr ''b'')]]"

text \<open>An attribute with an empty value, in lower-case and in upper-case spelling.\<close>

definition lowerCaseEmptyValue :: jsval where
  "lowerCaseEmptyValue = JObj [(''name'', JStr ''MODE''), (''value'', JStr '''')]"

definition upperCaseEmptyValue :: jsval where
  "upperCaseEmptyValue = JObj [(''NAME'', JStr ''MODE''), (''VALUE'', JStr '''')]"


definition soapEnvelope :: "jsval \<Rightarrow> jsval" where
  "soapEnvelope soapBody =
     JObj [(''Envelope'',
            JObj [(''$'', JObj [(''xmlns:soap'', JStr ''http://www.w3.org/2003/05/soap-envelope'')]),
                  (''Header'', JStr ''''),
                  (''Body'', soapBody)])]"



text \<open>The nodes of the earlier samples with their single entry wrapped into a
  one-element array.\<close>

definition sampleAccessPointWrapped :: jsval where
  "sampleAccessPointWrapped =
     JObj [(''id'', JStr ''AP-100''),
           (''accessPointAttributes'',
            JObj [(''attributes'',
                   JArr [JObj [(''Name'', JStr ''FIRMWARE_VERSION''),
                               (''Value'', JStr ''2.1.0'')]])])]"

definition sampleLogEntryWrapped :: jsval where
  "sampleLogEntryWrapped =
     JObj [(''family'', JStr ''ALARM''), (''code'', JStr ''17''),
           (''logData'', JArr [JObj [(''key'', JStr ''door''), (''value'', JStr ''open'')]])]"

section \<open>Payloads whose fields are text\<close>

text \<open>
  The protocol's payloads carry text in every field. \<open>isText v\<close>: the field is a text
  element or absent. \<open>textEntry\<close>: an attribute entry whose name and value, under each
  of the three spellings, are text or absent. \<open>textAccessPoint\<close>: a present
  \<^verbatim>\<open>accessPoint\<close> node whose six scalar fields and whose attribute entries are such.
\<close>

fun isText :: "jsval \<Rightarrow> bool" where
  "isText (JStr s) = True"
| "isText JUndefined = True"
| "isText JNull = False"
| "isText (JArr xs) = False"
| "isText (JObj kvs) = False"

definition textEntry :: "jsval \<Rightarrow> bool" where
  "textEntry e =
     (\<not> nullish e
      \<and> list_all (\<lambda>k. isText (getProp e k))
           [''name'', ''Name'', ''NAME'', ''value'', ''Value'', ''VALUE''])"

definition textAccessPoint :: "jsval \<Rightarrow> bool" where
  "textAccessPoint accessPoint =
     (truthy accessPoint
      \<and> list_all (\<lambda>k. isText (getProp accessPoint k))
           [''id'', ''serialNumber'', ''online'', ''syncStatus'', ''firmwareUpgradeStatus'',
            ''timeOfLastFirmwareUpgrade'']
      \<and> list_all textEntry (attributeEntries accessPoint))"

fun isArray :: "jsval \<Rightarrow> bool" where
  "isArray (JArr xs) = True"
| "isArray JUndefined = False"
| "isArray JNull = False"
| "isArray (JStr s) = False"
| "isArray (JObj kvs) = False"


section \<open>The last occurrence of a name\<close>

text \<open>
  The attribute map as section 4.2 of the specification describes it, for comparison
  with the loop of the source: \<open>entryKey\<close> is the name an entry resolves to (\<open>None\<close>
  when it resolves to none and is skipped), and \<open>lastValue\<close> the value of the last
  entry of the sequence with a given name.
\<close>

definition entryKey :: "runtime \<Rightarrow> jsval \<Rightarrow> string option" where
  "entryKey rt attr =
     (if truthy (attrName attr)
      then (case toStr rt (attrName attr) of Inr key \<Rightarrow> Some key | Inl e \<Rightarrow> None)
      else None)"

definition lastValue :: "runtime \<Rightarrow> jsval list \<Rightarrow> string \<Rightarrow> jsval option" where
  "lastValue rt entries key =
     (case filter (\<lambda>attr. entryKey rt attr = Some key) entries of
        [] \<Rightarrow> None
      | x # xs \<Rightarrow> Some (attrValue (last (x # xs))))"

section \<open>Payloads that are logged without a fault\<close>

text \<open>
  \<open>convertible rt v\<close>: the string conversion of \<open>v\<close> does not throw under the runtime
  \<open>rt\<close>. Text, absent values and arrays of such convert under every runtime; an object
  converts where the runtime gives it a string.

  \<open>inheritable rt v\<close>: the six firmware properties read from \<open>v\<close> convert. It matters
  for a value that an entry named \<^verbatim>\<open>__proto__\<close> makes the prototype of the attribute
  map.

  \<open>loggableEntry\<close>: an attribute entry that is not \<^verbatim>\<open>null\<close> or \<^verbatim>\<open>undefined\<close> and
  whose name and value are such. \<open>loggableAccessPoint\<close>: a present \<^verbatim>\<open>accessPoint\<close>
  node whose six scalar fields convert and whose attribute entries are loggable.
  \<open>loggableObject\<close>: an attribute map whose values convert and whose prototype, when
  replaced, is inheritable.
\<close>

definition convertible :: "runtime \<Rightarrow> jsval \<Rightarrow> bool" where
  "convertible rt v = (\<not> isl (toStr rt v))"

definition inheritable :: "runtime \<Rightarrow> jsval \<Rightarrow> bool" where
  "inheritable rt v = list_all (\<lambda>key. convertible rt (getProp v key)) firmwareAttrs"

definition loggableEntry :: "runtime \<Rightarrow> jsval \<Rightarrow> bool" where
  "loggableEntry rt e =
     (\<not> nullish e \<and> convertible rt (attrName e) \<and> convertible rt (attrValue e)
      \<and> inheritable rt (attrValue e))"

definition loggableAccessPoint :: "runtime \<Rightarrow> jsval \<Rightarrow> bool" where
  "loggableAccessPoint rt accessPoint =
     (truthy accessPoint
      \<and> list_all (\<lambda>k. convertible rt (getProp accessPoint k))
           [''id'', ''serialNumber'', ''online'', ''syncStatus'', ''firmwareUpgradeStatus'',
            ''timeOfLastFirmwareUpgrade'']
      \<and> list_all (loggableEntry rt) (attributeEntries accessPoint))"


text \<open>The attribute map of an extraction result, when there is one.\<close>

definition attributeMapOf :: "error + firmware_status option \<Rightarrow> (string \<times> jsval) list option" where
  "attributeMapOf r =
     (case r of Inr (Some st) \<Rightarrow> Some (own (attributes st)) | Inr None \<Rightarrow> None | Inl e \<Rightarrow> None)"

section \<open>Text payloads are logged without a fault\<close>

lemma isText_jsOr: "isText a \<Longrightarrow> isText b \<Longrightarrow> isText (jsOr a b)"
  by (simp add: jsOr_def)






lemma attrName_text: "textEntry e \<Longrightarrow> isText (attrName e)"
  by (simp add: textEntry_def attrName_def isText_jsOr)

lemma attrValue_text: "textEntry e \<Longrightarrow> isText (attrValue e)"
  by (simp add: textEntry_def attrValue_def isText_jsOr)









section \<open>The handler after a successful parse\<close>

lemma postHandler_parsed:
  assumes "parseStringPromise rt parserOptions (body req) = Inr parsed" "truthy parsed"
  shows "statusCode (postHandler rt req) = statusCode (dispatch rt parsed)
       \<and> contentType (postHandler rt req) = contentType (dispatch rt parsed)
       \<and> payload (postHandler rt req) = payload (dispatch rt parsed)"
  using assms by (simp add: postHandler_def parseXML_def Let_def)

lemma dispatch_unknown:
  assumes "\<not> truthy (optChain (optChain (getProp parsed ''Envelope'') ''Body'') ''notifyUpdated'')"
    "\<not> truthy (optChain (optChain (getProp parsed ''Envelope'') ''Body'') ''newEvent'')"
  shows "dispatch rt parsed =
     sendSoap unknownResponse
       [''Unknown callback type'',
        ''Body: '' @ jsonStringify rt (optChain (getProp parsed ''Envelope'') ''Body'')]"
  using assms by (simp add: dispatch_def Let_def)


lemma optChain_simps:
  "optChain (JObj kvs) k = getProp (JObj kvs) k"
  "optChain (JStr s) k = JUndefined"
  "optChain (JArr xs) k = JUndefined"
  "optChain JUndefined k = JUndefined"
  "optChain JNull k = JUndefined"
  by (simp_all add: optChain_def)

lemma envelopeOf_body: "optChain (getProp (envelopeOf b) ''Envelope'') ''Body'' = b"
  by (simp add: envelopeOf_def optChain_def)

lemma truthy_envelopeOf: "truthy (envelopeOf b)"
  by (simp add: envelopeOf_def)

lemma sampleRuntime_parse: "parseStringPromise (sampleRuntime t) parserOptions x = Inr t"
  by (simp add: sampleRuntime_def)



lemma withoutLayout_unknown: "withoutLayout False unknownResponse = specUnrecognizedAck"
  by (simp add: unknownResponse_def specUnrecognizedAck_def)


lemma unknownResponse_differs: "unknownResponse \<noteq> specUnrecognizedAck"
  by (simp add: unknownResponse_def specUnrecognizedAck_def)

section \<open>Faults while logging\<close>

lemma optChain_truthy: "truthy (getProp v k) \<Longrightarrow> optChain v k = getProp v k"
  by (cases v) (simp_all add: optChain_simps)

lemma dispatch_notifyUpdated_ok:
  assumes "truthy (getProp soapBody ''notifyUpdated'')"
    and "snd (logCallback rt ''notifyUpdated''
               (getProp (getProp soapBody ''notifyUpdated'') ''accessPoint'')) = None"
  shows "dispatch rt (envelopeOf soapBody) =
     sendSoap notifyUpdatedResponse
       (fst (logCallback rt ''notifyUpdated''
               (getProp (getProp soapBody ''notifyUpdated'') ''accessPoint'')))"
  using assms by (simp add: dispatch_def Let_def envelopeOf_body optChain_truthy)

lemma dispatch_notifyUpdated_fault:
  assumes "truthy (getProp soapBody ''notifyUpdated'')"
    and "snd (logCallback rt ''notifyUpdated''
               (getProp (getProp soapBody ''notifyUpdated'') ''accessPoint'')) = Some e"
  shows "dispatch rt (envelopeOf soapBody) =
     internalError
       (fst (logCallback rt ''notifyUpdated''
               (getProp (getProp soapBody ''notifyUpdated'') ''accessPoint'')))"
  using assms by (simp add: dispatch_def Let_def envelopeOf_body optChain_truthy)


lemma dispatch_newEvent_fault:
  assumes "\<not> truthy (optChain soapBody ''notifyUpdated'')"
    and "truthy (optChain soapBody ''newEvent'')"
    and "snd (logCallback rt ''newEvent''
               (getProp (getProp soapBody ''newEvent'') ''logEntry'')) = Some e"
  shows "dispatch rt (envelopeOf soapBody) =
     internalError
       (fst (logCallback rt ''newEvent'' (getProp (getProp soapBody ''newEvent'') ''logEntry'')))"
  using assms by (simp add: dispatch_def Let_def envelopeOf_body)

lemma logCallback_absent_accessPoint:
  "snd (logCallback rt ''notifyUpdated'' JUndefined) = Some TypeError"
  by (simp add: logCallback_def extractFirmwareStatus_def)

lemma logCallback_absent_logEntry:
  "snd (logCallback rt ''newEvent'' JUndefined) = Some TypeError"
  by (simp add: logCallback_def eventLines_def getMember_def)


lemma takeWhile_all: "list_all P xs \<Longrightarrow> takeWhile P xs = xs"
  by (induction xs) simp_all

section \<open>The attribute loop\<close>

lemma lastValue_Cons:
  "lastValue rt (e # es) key =
     (case lastValue rt es key of
        Some v \<Rightarrow> Some v
      | None \<Rightarrow> (if entryKey rt e = Some key then Some (attrValue e) else None))"
  by (simp add: lastValue_def split: list.splits)

lemma setProperty_own:
  assumes "key \<noteq> ''__proto__''"
  shows "map_of (own (setProperty rt obj k v)) key =
           (if k = key then Some v else map_of (own obj) key)"
  using assms by (cases v) (auto simp: setProperty_def update_conv')

lemma setProperty_distinct:
  "distinct (map fst (own obj)) \<Longrightarrow> distinct (map fst (own (setProperty rt obj k v)))"
  by (cases v) (auto simp: setProperty_def distinct_update)

lemma addAttribute_own:
  assumes "addAttribute rt obj e = Inr obj1" "key \<noteq> ''__proto__''"
  shows "map_of (own obj1) key =
           (if entryKey rt e = Some key then Some (attrValue e) else map_of (own obj) key)"
proof (cases "truthy (attrName e)")
  case True
  then obtain k where k: "toStr rt (attrName e) = Inr k" "obj1 = setProperty rt obj k (attrValue e)"
    using assms(1) by (auto simp: addAttribute_def split: if_splits sum.splits)
  then show ?thesis
    using True setProperty_own [OF assms(2)] by (auto simp: entryKey_def)
next
  case False
  then show ?thesis
    using assms(1) by (auto simp: addAttribute_def entryKey_def split: if_splits)
qed

lemma addAttribute_distinct:
  assumes "addAttribute rt obj e = Inr obj1" "distinct (map fst (own obj))"
  shows "distinct (map fst (own obj1))"
  using assms setProperty_distinct
  by (auto simp: addAttribute_def split: if_splits sum.splits)

lemma forEachAttr_own:
  "forEachAttr rt obj es = Inr obj' \<Longrightarrow> key \<noteq> ''__proto__'' \<Longrightarrow>
   map_of (own obj') key =
     (case lastValue rt es key of Some v \<Rightarrow> Some v | None \<Rightarrow> map_of (own obj) key)"
proof (induction es arbitrary: obj)
  case Nil
  then show ?case by (simp add: lastValue_def)
next
  case (Cons e es)
  then obtain obj1 where o: "addAttribute rt obj e = Inr obj1" "forEachAttr rt obj1 es = Inr obj'"
    by (auto split: sum.splits)
  show ?case
    using Cons.IH [OF o(2) Cons.prems(2)] addAttribute_own [OF o(1) Cons.prems(2)]
    by (simp add: lastValue_Cons split: option.splits)
qed

lemma forEachAttr_distinct:
  "forEachAttr rt obj es = Inr obj' \<Longrightarrow> distinct (map fst (own obj)) \<Longrightarrow>
   distinct (map fst (own obj'))"
proof (induction es arbitrary: obj)
  case Nil
  then show ?case by simp
next
  case (Cons e es)
  then obtain obj1 where o: "addAttribute rt obj e = Inr obj1" "forEachAttr rt obj1 es = Inr obj'"
    by (auto split: sum.splits)
  from Cons.IH [OF o(2) addAttribute_distinct [OF o(1) Cons.prems(2)]] show ?case .
qed

lemma extractFirmwareStatus_attributes:
  assumes "extractFirmwareStatus rt accessPoint = Inr (Some st)"
  shows "forEachAttr rt emptyObject (attributeEntries accessPoint) = Inr (attributes st)"
  using assms by (auto simp: extractFirmwareStatus_def split: if_splits sum.splits)

lemma attributeEntries_accessPointWith:
  "attributeEntries (accessPointWith (JArr xs)) = xs"
  "attributeEntries (accessPointWith (JObj kvs)) = [JObj kvs]"
  by (simp_all add: attributeEntries_def accessPointWith_def)

lemma extractFirmwareStatus_accessPointWith:
  "forEachAttr rt emptyObject (attributeEntries (accessPointWith attrs)) = Inr obj \<Longrightarrow>
   proto obj = None \<Longrightarrow>
   extractFirmwareStatus rt (accessPointWith attrs) = Inr (Some (statusWith (own obj)))"
  by (simp add: extractFirmwareStatus_def statusWith_def jsOr_def NA_def)
    (simp add: accessPointWith_def)

lemma extract_repeatedEntries:
  "extractFirmwareStatus rt (accessPointWith repeatedEntries) =
     Inr (Some (statusWith [(''MODE'', JStr ''b'')]))"
  by (rule trans [OF extractFirmwareStatus_accessPointWith [where obj = "\<lparr>own = [(''MODE'', JStr ''b'')], proto = None\<rparr>"]])
    (simp_all add: repeatedEntries_def attributeEntries_accessPointWith addAttribute_def attrName_def
      attrValue_def jsOr_def setProperty_def emptyObject_def)

section \<open>Spellings of the keys, and single entries\<close>

lemma attrName_order:
  "attrName attr =
     (if truthy (getProp attr ''name'') then getProp attr ''name''
      else if truthy (getProp attr ''Name'') then getProp attr ''Name''
      else getProp attr ''NAME'')"
  by (simp add: attrName_def jsOr_def)

lemma attrValue_order:
  "attrValue attr =
     (if truthy (getProp attr ''value'') then getProp attr ''value''
      else if truthy (getProp attr ''Value'') then getProp attr ''Value''
      else getProp attr ''VALUE'')"
  by (simp add: attrValue_def jsOr_def)

lemma addAttribute_variants:
  assumes "truthy v"
  shows "addAttribute rt obj (JObj [(''name'', n), (''value'', v)])
           = addAttribute rt obj (JObj [(''NAME'', n), (''VALUE'', v)])"
    and "addAttribute rt obj (JObj [(''Name'', n), (''Value'', v)])
           = addAttribute rt obj (JObj [(''NAME'', n), (''VALUE'', v)])"
  using assms
  by (simp_all add: addAttribute_def attrName_order attrValue_order split: sum.splits)

lemma extract_single_entry:
  "extractFirmwareStatus rt (accessPointWith (JObj kvs)) =
     (case addAttribute rt emptyObject (JObj kvs) of
        Inl e \<Rightarrow> Inl e
      | Inr attrs \<Rightarrow> Inr (Some ((statusWith [])\<lparr>attributes := attrs\<rparr>)))"
  by (simp add: extractFirmwareStatus_def attributeEntries_accessPointWith statusWith_def
      jsOr_def NA_def split: sum.splits)
    (simp add: accessPointWith_def)

lemma wrap_single: "\<not> isArray e \<Longrightarrow> (case e of JArr xs \<Rightarrow> xs | x \<Rightarrow> [x]) = [e]"
  by (cases e) simp_all

section \<open>Loggable payloads are logged without a fault\<close>

lemma convertible_simps:
  "convertible rt JUndefined" "convertible rt JNull" "convertible rt (JStr s)" "convertible rt NA"
  by (simp_all add: convertible_def NA_def)

lemma convertible_falsy: "\<not> truthy v \<Longrightarrow> convertible rt v"
  by (cases v) (simp_all add: convertible_def)


lemma convertible_text: "isText v \<Longrightarrow> convertible rt v"
  by (cases v) (simp_all add: convertible_def)

lemma inheritable_simps:
  "inheritable rt JUndefined" "inheritable rt JNull" "inheritable rt (JStr s)"
  "inheritable rt (JArr xs)"
  by (simp_all add: inheritable_def firmwareAttrs_def convertible_simps)













lemma textEntry_loggable: "textEntry e \<Longrightarrow> loggableEntry rt e"
proof -
  assume t: "textEntry e"
  have "inheritable rt (attrValue e)"
    using attrValue_text [OF t] by (cases "attrValue e") (simp_all add: inheritable_simps)
  then show ?thesis
    using t attrName_text [OF t] attrValue_text [OF t]
    by (simp add: loggableEntry_def textEntry_def convertible_text)
qed

lemma textAccessPoint_loggable: "textAccessPoint ap \<Longrightarrow> loggableAccessPoint rt ap"
  by (auto simp: textAccessPoint_def loggableAccessPoint_def convertible_text list_all_iff
      textEntry_loggable)




lemma truthy_soapEnvelope: "truthy (soapEnvelope b)"
  by (simp add: soapEnvelope_def)




section \<open>A single entry and its one-element array\<close>

lemma getProp_truthy_object: "truthy (getProp v k) \<Longrightarrow> \<exists>kvs. v = JObj kvs"
  by (cases v) simp_all

lemma logDataEntries_single:
  "\<not> isArray item \<Longrightarrow> logDataEntries item = [item]"
  "logDataEntries (JArr [item]) = [item]"
  by (simp_all add: logDataEntries_def wrap_single)

lemma attributeEntries_single:
  assumes "truthy attr" "\<not> isArray attr"
  shows "getProp (getProp accessPoint ''accessPointAttributes'') ''attributes'' = attr
           \<Longrightarrow> attributeEntries accessPoint = [attr]"
    and "getProp (getProp accessPoint ''accessPointAttributes'') ''attributes'' = JArr [attr]
           \<Longrightarrow> attributeEntries accessPoint = [attr]"
proof -
  assume a: "getProp (getProp accessPoint ''accessPointAttributes'') ''attributes'' = attr"
  then have "truthy (getProp accessPoint ''accessPointAttributes'')"
    using assms(1) getProp_truthy_object [of "getProp accessPoint ''accessPointAttributes''" "''attributes''"]
    by auto
  then show "attributeEntries accessPoint = [attr]"
    using assms a by (simp add: attributeEntries_def wrap_single)
next
  assume a: "getProp (getProp accessPoint ''accessPointAttributes'') ''attributes'' = JArr [attr]"
  then have "truthy (getProp accessPoint ''accessPointAttributes'')"
    using getProp_truthy_object [of "getProp accessPoint ''accessPointAttributes''" "''attributes''"]
    by auto
  then show "attributeEntries accessPoint = [attr]"
    using a by (simp add: attributeEntries_def)
qed

lemma extract_single:
  assumes "truthy accessPoint" "attributeEntries accessPoint = [attr]"
    "entryKey rt attr = Some key" "key \<noteq> ''__proto__''"
  shows "attributeMapOf (extractFirmwareStatus rt accessPoint) = Some [(key, attrValue attr)]"
proof -
  from assms(3) have t: "truthy (attrName attr)" and k: "toStr rt (attrName attr) = Inr key"
    by (auto simp: entryKey_def split: if_splits sum.splits)
  from t have n: "\<not> nullish attr"
    by (cases attr) (simp_all add: attrName_def jsOr_def)
  have "addAttribute rt emptyObject attr = Inr \<lparr>own = [(key, attrValue attr)], proto = None\<rparr>"
    using t k n assms(4) by (simp add: addAttribute_def setProperty_def emptyObject_def)
  then show ?thesis
    using assms(1,2) by (simp add: extractFirmwareStatus_def attributeMapOf_def)
qed

lemma extract_same_fields:
  assumes "truthy accessPoint" "truthy accessPoint'"
    and "attributeEntries accessPoint' = attributeEntries accessPoint"
    and "\<And>k. k \<noteq> ''accessPointAttributes'' \<Longrightarrow> getProp accessPoint' k = getProp accessPoint k"
  shows "extractFirmwareStatus rt accessPoint' = extractFirmwareStatus rt accessPoint"
  using assms(1-3) by (simp add: extractFirmwareStatus_def assms(4) split: sum.splits)

lemma eventLines_logData:
  assumes "truthy item" "getProp logEntry ''logData'' = item"
  shows "drop 5 (eventLines rt logEntry)
           = Inr ''\<newline>Log Data:'' # map (logDataLine rt) (logDataEntries item)"
proof -
  obtain kvs where "logEntry = JObj kvs"
    using assms getProp_truthy_object [of logEntry "''logData''"] by auto
  then show ?thesis
    using assms by (simp add: eventLines_def getMember_def)
qed

lemma eventLines_same_fields:
  assumes "truthy item" "getProp logEntry ''logData'' = item"
    and "truthy item'" "getProp logEntry' ''logData'' = item'"
    and "logDataEntries item' = logDataEntries item"
    and "\<And>k. k \<noteq> ''logData'' \<Longrightarrow> getProp logEntry' k = getProp logEntry k"
  shows "eventLines rt logEntry' = eventLines rt logEntry"
proof -
  obtain kvs where a: "logEntry = JObj kvs"
    using assms(1,2) getProp_truthy_object [of logEntry "''logData''"] by auto
  obtain kvs' where b: "logEntry' = JObj kvs'"
    using assms(3,4) getProp_truthy_object [of logEntry' "''logData''"] by auto
  have o: "getProp (JObj kvs') ''origin'' = getProp (JObj kvs) ''origin''"
    and f: "getProp (JObj kvs') ''family'' = getProp (JObj kvs) ''family''"
    and c: "getProp (JObj kvs') ''code'' = getProp (JObj kvs) ''code''"
    and s: "getProp (JObj kvs') ''timeStamp'' = getProp (JObj kvs) ''timeStamp''"
    using assms(6) [unfolded a b] by simp_all
  have l: "getProp (JObj kvs) ''logData'' = item" "getProp (JObj kvs') ''logData'' = item'"
    using assms(2,4) a b by simp_all
  show ?thesis
    unfolding a b eventLines_def getMember_def fieldLine_def
    using assms(1,3,5) by (simp only: o f c s l nullish.simps if_False sum.case)
qed

section \<open>Status updates\<close>




text \<open>The extraction of that example: the identifier, the placeholder in every other
  scalar field, and the one attribute.\<close>

lemma section8_example_extracted:
  "extractFirmwareStatus rt sampleAccessPoint =
     Inr (Some (statusWith [(''FIRMWARE_VERSION'', JStr ''2.1.0'')]))"
  by (simp add: sampleAccessPoint_def extractFirmwareStatus_def attributeEntries_def
      addAttribute_def attrName_def attrValue_def jsOr_def NA_def setProperty_def emptyObject_def
      statusWith_def)

section \<open>Absent payload nodes\<close>

text \<open>
  Claim C2 says that an absent \<^verbatim>\<open>accessPoint\<close> node under \<^verbatim>\<open>notifyUpdated\<close>, or an
  absent \<^verbatim>\<open>logEntry\<close> node under \<^verbatim>\<open>newEvent\<close>, raises no fault and is still
  acknowledged. The code at such inputs: \<^verbatim>\<open>extractFirmwareStatus\<close> returns \<^verbatim>\<open>null\<close>
  for the absent node and \<^verbatim>\<open>logCallback\<close> reads a field of it (line 74); for the
  event, line 111 reads \<^verbatim>\<open>data.origin\<close> of \<^verbatim>\<open>undefined\<close>. Each TypeError reaches
  the handler's \<^verbatim>\<open>catch\<close>, and the request is answered with status 500.
\<close>

theorem absent_payload_node_answers_500:
  "statusCode (postHandler (sampleRuntime notifyWithoutAccessPoint) sampleRequest) = 500
   \<and> payload (postHandler (sampleRuntime notifyWithoutAccessPoint) sampleRequest)
       = ''Internal Server Error''
   \<and> statusCode (postHandler (sampleRuntime eventWithoutLogEntry) sampleRequest) = 500
   \<and> payload (postHandler (sampleRuntime eventWithoutLogEntry) sampleRequest)
       = ''Internal Server Error''"
proof -
  have n: "dispatch rt notifyWithoutAccessPoint =
      internalError (fst (logCallback rt ''notifyUpdated'' JUndefined))" for rt
    using dispatch_notifyUpdated_fault
      [of "JObj [(''notifyUpdated'', bareOperation)]" rt TypeError]
    by (simp add: notifyWithoutAccessPoint_def bareOperation_def logCallback_absent_accessPoint)
  have e: "dispatch rt eventWithoutLogEntry =
      internalError (fst (logCallback rt ''newEvent'' JUndefined))" for rt
    using dispatch_newEvent_fault
      [of "JObj [(''newEvent'', bareOperation)]" rt TypeError]
    by (simp add: eventWithoutLogEntry_def bareOperation_def optChain_simps
        logCallback_absent_logEntry)
  have tn: "truthy notifyWithoutAccessPoint"
    by (simp add: notifyWithoutAccessPoint_def truthy_envelopeOf)
  have te: "truthy eventWithoutLogEntry"
    by (simp add: eventWithoutLogEntry_def truthy_envelopeOf)
  show ?thesis
    using postHandler_parsed [OF sampleRuntime_parse tn, of sampleRequest]
      postHandler_parsed [OF sampleRuntime_parse te, of sampleRequest]
    by (simp add: n e internalError_def)
qed

text \<open>An absent scalar field of a present \<^verbatim>\<open>accessPoint\<close> does resolve to the
  placeholder, and absent attributes to the empty collection.\<close>

lemma absent_scalar_fields_resolve_to_placeholder:
  "extractFirmwareStatus rt (JObj [(''id'', JStr ''AP-100'')]) =
     Inr (Some \<lparr>accessPointId = JStr ''AP-100'', serialNumber = JStr ''N/A'',
                online = JStr ''N/A'', syncStatus = JStr ''N/A'',
                firmwareUpgradeStatus = JStr ''N/A'', timeOfLastFirmwareUpgrade = JStr ''N/A'',
                attributes = \<lparr>own = [], proto = None\<rparr>\<rparr>)"
  by (simp add: extractFirmwareStatus_def attributeEntries_def jsOr_def NA_def emptyObject_def)

section \<open>Parse failure\<close>

text \<open>
  Claim C3. When the XML library rejects the request body, \<^verbatim>\<open>parseXML\<close> returns
  \<^verbatim>\<open>null\<close> instead of throwing, and the handler answers with status 400 and the plain
  text \<^verbatim>\<open>Invalid SOAP\<close>: it sets no SOAP content type, sends none of the three
  acknowledgement envelopes, and the console shows that no callback was logged (dispatch
  did not run).
\<close>

theorem parse_failure_yields_400:
  assumes "parseStringPromise rt parserOptions (body req) = Inl e"
  shows "fst (parseXML rt (body req)) = JNull
       \<and> postHandler rt req =
           \<lparr>statusCode = 400, contentType = None, payload = ''Invalid SOAP'',
            console = [''\<newline>Received request to: '' @ path req,
                       ''SOAPAction: '' @ soapActionOf req,
                       ''XML Parse Error:'', ''Failed to parse SOAP envelope'']\<rparr>
       \<and> payload (postHandler rt req) \<noteq> notifyUpdatedResponse
       \<and> payload (postHandler rt req) \<noteq> newEventResponse
       \<and> payload (postHandler rt req) \<noteq> unknownResponse"
proof -
  have p: "parseXML rt (body req) = (JNull, [''XML Parse Error:''])"
    using assms by (simp add: parseXML_def)
  have h: "postHandler rt req =
           \<lparr>statusCode = 400, contentType = None, payload = ''Invalid SOAP'',
            console = [''\<newline>Received request to: '' @ path req,
                       ''SOAPAction: '' @ soapActionOf req,
                       ''XML Parse Error:'', ''Failed to parse SOAP envelope'']\<rparr>"
    by (simp add: postHandler_def p)
  show ?thesis
    by (simp add: p h notifyUpdatedResponse_def newEventResponse_def unknownResponse_def)
qed

text \<open>Witness for C3: a parser that rejects the unclosed tag \<^verbatim>\<open><a>\<close>.\<close>

theorem parse_failure_witness:
  "parseStringPromise rejectingRuntime parserOptions (body sampleRequest) = Inl XmlParseError
   \<and> fst (parseXML rejectingRuntime (body sampleRequest)) = JNull
   \<and> statusCode (postHandler rejectingRuntime sampleRequest) = 400
   \<and> contentType (postHandler rejectingRuntime sampleRequest) = None
   \<and> payload (postHandler rejectingRuntime sampleRequest) = ''Invalid SOAP''"
proof -
  have p: "parseStringPromise rejectingRuntime parserOptions (body sampleRequest)
             = Inl XmlParseError"
    by (simp add: rejectingRuntime_def)
  from parse_failure_yields_400 [OF p] p show ?thesis by simp
qed

section \<open>Unrecognized operations\<close>

text \<open>
  Claim C4, as amended. When neither \<^verbatim>\<open>Body.notifyUpdated\<close> nor
  \<^verbatim>\<open>Body.newEvent\<close> is truthy (the child is absent, or an empty element), the handler
  answers with status 200 and the template of lines 184-187. That template is laid out
  over four lines with an indented \<^verbatim>\<open><soap:Body/>\<close>; without its line breaks and
  indentation it is the single-line text of section 6 of the specification.
\<close>

theorem unrecognized_acknowledged:
  assumes "parseStringPromise rt parserOptions (body req) = Inr parsed"
    and "truthy parsed"
    and "\<not> truthy (optChain (optChain (getProp parsed ''Envelope'') ''Body'') ''notifyUpdated'')"
    and "\<not> truthy (optChain (optChain (getProp parsed ''Envelope'') ''Body'') ''newEvent'')"
  shows "statusCode (postHandler rt req) = 200
       \<and> contentType (postHandler rt req) = Some soapContentType
       \<and> payload (postHandler rt req) = unknownResponse
       \<and> withoutLayout False (payload (postHandler rt req)) = specUnrecognizedAck"
  using postHandler_parsed [OF assms(1,2)] dispatch_unknown [OF assms(3,4), of rt]
    withoutLayout_unknown
  by (simp add: sendSoap_def)

text \<open>Witness for C4: a body whose only child is \<^verbatim>\<open>ping\<close>.\<close>

theorem unrecognized_witness:
  "truthy unknownTree
   \<and> \<not> truthy (optChain (optChain (getProp unknownTree ''Envelope'') ''Body'') ''notifyUpdated'')
   \<and> \<not> truthy (optChain (optChain (getProp unknownTree ''Envelope'') ''Body'') ''newEvent'')
   \<and> statusCode (postHandler (sampleRuntime unknownTree) sampleRequest) = 200
   \<and> contentType (postHandler (sampleRuntime unknownTree) sampleRequest) = Some soapContentType
   \<and> payload (postHandler (sampleRuntime unknownTree) sampleRequest) = unknownResponse
   \<and> withoutLayout False (payload (postHandler (sampleRuntime unknownTree) sampleRequest))
       = specUnrecognizedAck"
proof -
  have t: "truthy unknownTree" by (simp add: unknownTree_def truthy_envelopeOf)
  have n:
    "\<not> truthy (optChain (optChain (getProp unknownTree ''Envelope'') ''Body'') ''notifyUpdated'')"
    "\<not> truthy (optChain (optChain (getProp unknownTree ''Envelope'') ''Body'') ''newEvent'')"
    by (simp_all add: unknownTree_def envelopeOf_body optChain_simps)
  show ?thesis
    using t n unrecognized_acknowledged [OF sampleRuntime_parse t n, of sampleRequest] by blast
qed

text \<open>
  Counterexample to C4 as stated: for that body the response is acknowledged with status
  200, but its text is not the single-line literal of section 6.
\<close>

theorem unrecognized_counterexample:
  "statusCode (postHandler (sampleRuntime unknownTree) sampleRequest) = 200
   \<and> payload (postHandler (sampleRuntime unknownTree) sampleRequest) = unknownResponse
   \<and> payload (postHandler (sampleRuntime unknownTree) sampleRequest) \<noteq> specUnrecognizedAck"
proof -
  have "dispatch (sampleRuntime unknownTree) unknownTree =
     sendSoap unknownResponse
       [''Unknown callback type'',
        ''Body: '' @ jsonStringify (sampleRuntime unknownTree)
           (optChain (getProp unknownTree ''Envelope'') ''Body'')]"
    by (rule dispatch_unknown) (simp_all add: unknownTree_def envelopeOf_body optChain_simps)
  then show ?thesis
    using postHandler_parsed [OF sampleRuntime_parse, of unknownTree sampleRequest]
      unknownResponse_differs
    by (simp add: sendSoap_def unknownTree_def truthy_envelopeOf)
qed

section \<open>Case variants of the attribute keys\<close>

text \<open>
  Claim C5, as amended. The name of an entry is the first truthy (non-empty) value among
  the keys \<^verbatim>\<open>name\<close>, \<^verbatim>\<open>Name\<close>, \<^verbatim>\<open>NAME\<close> in that order, and the value of
  \<^verbatim>\<open>NAME\<close> when none is truthy; likewise the value among \<^verbatim>\<open>value\<close>, \<^verbatim>\<open>Value\<close>,
  \<^verbatim>\<open>VALUE\<close>. An entry with a non-empty value normalizes to the same mapping under
  the three spellings, in the loop body and in the extracted status.
\<close>

theorem attribute_case_variants_agree:
  assumes "truthy v"
  shows "addAttribute rt obj (JObj [(''name'', n), (''value'', v)])
           = addAttribute rt obj (JObj [(''NAME'', n), (''VALUE'', v)])
       \<and> addAttribute rt obj (JObj [(''Name'', n), (''Value'', v)])
           = addAttribute rt obj (JObj [(''NAME'', n), (''VALUE'', v)])
       \<and> extractFirmwareStatus rt (accessPointWith (JObj [(''name'', n), (''value'', v)]))
           = extractFirmwareStatus rt (accessPointWith (JObj [(''NAME'', n), (''VALUE'', v)]))
       \<and> extractFirmwareStatus rt (accessPointWith (JObj [(''Name'', n), (''Value'', v)]))
           = extractFirmwareStatus rt (accessPointWith (JObj [(''NAME'', n), (''VALUE'', v)]))
       \<and> attrName attr =
           (if truthy (getProp attr ''name'') then getProp attr ''name''
            else if truthy (getProp attr ''Name'') then getProp attr ''Name''
            else getProp attr ''NAME'')
       \<and> attrValue attr =
           (if truthy (getProp attr ''value'') then getProp attr ''value''
            else if truthy (getProp attr ''Value'') then getProp attr ''Value''
            else getProp attr ''VALUE'')"
  using addAttribute_variants [OF assms, of rt _ n] attrName_order [of attr] attrValue_order [of attr]
  by (simp add: extract_single_entry)

text \<open>Witness for C5: the attribute \<^verbatim>\<open>FIRMWARE_VERSION = 2.1.0\<close> in the three
  spellings.\<close>

theorem attribute_case_variants_witness:
  "truthy (JStr ''2.1.0'')
   \<and> extractFirmwareStatus (sampleRuntime JNull)
       (accessPointWith (JObj [(''name'', JStr ''FIRMWARE_VERSION''), (''value'', JStr ''2.1.0'')]))
     = extractFirmwareStatus (sampleRuntime JNull)
         (accessPointWith (JObj [(''NAME'', JStr ''FIRMWARE_VERSION''), (''VALUE'', JStr ''2.1.0'')]))
   \<and> extractFirmwareStatus (sampleRuntime JNull)
       (accessPointWith (JObj [(''Name'', JStr ''FIRMWARE_VERSION''), (''Value'', JStr ''2.1.0'')]))
     = extractFirmwareStatus (sampleRuntime JNull)
         (accessPointWith (JObj [(''NAME'', JStr ''FIRMWARE_VERSION''), (''VALUE'', JStr ''2.1.0'')]))"
proof -
  have t: "truthy (JStr ''2.1.0'')" by simp
  from t attribute_case_variants_agree [OF t, of "sampleRuntime JNull" emptyObject
      "JStr ''FIRMWARE_VERSION''" JNull]
  show ?thesis by blast
qed

text \<open>
  Counterexample to C5 as stated: an attribute \<^verbatim>\<open>MODE\<close> with an empty value. The
  empty string is defined but falsy, so the lower-case spelling falls through to the
  absent \<^verbatim>\<open>VALUE\<close> and stores \<^verbatim>\<open>undefined\<close>, while the upper-case spelling
  stores the empty string: the two do not normalize to the identical mapping.
\<close>

theorem attribute_case_variants_counterexample:
  "extractFirmwareStatus (sampleRuntime JNull) (accessPointWith lowerCaseEmptyValue)
     = Inr (Some (statusWith [(''MODE'', JUndefined)]))
   \<and> extractFirmwareStatus (sampleRuntime JNull) (accessPointWith upperCaseEmptyValue)
     = Inr (Some (statusWith [(''MODE'', JStr '''')]))
   \<and> extractFirmwareStatus (sampleRuntime JNull) (accessPointWith lowerCaseEmptyValue)
     \<noteq> extractFirmwareStatus (sampleRuntime JNull) (accessPointWith upperCaseEmptyValue)"
proof -
  have l: "extractFirmwareStatus rt (accessPointWith lowerCaseEmptyValue)
     = Inr (Some (statusWith [(''MODE'', JUndefined)]))" for rt
    by (simp add: lowerCaseEmptyValue_def extract_single_entry addAttribute_def attrName_order
        attrValue_order setProperty_def emptyObject_def statusWith_def)
  have u: "extractFirmwareStatus rt (accessPointWith upperCaseEmptyValue)
     = Inr (Some (statusWith [(''MODE'', JStr '''')]))" for rt
    by (simp add: upperCaseEmptyValue_def extract_single_entry addAttribute_def attrName_order
        attrValue_order setProperty_def emptyObject_def statusWith_def)
  show ?thesis
    by (simp add: l u statusWith_def)
qed

section \<open>A single entry, bare or wrapped\<close>

text \<open>
  Claim C6. Take an \<^verbatim>\<open>accessPoint\<close> node whose \<^verbatim>\<open>attributes\<close> holds one entry bare
  (a truthy value that is not an array, as every object is) and the node that differs
  from it only in holding the one-element array of that entry; likewise two
  \<^verbatim>\<open>logEntry\<close> nodes for \<^verbatim>\<open>logData\<close>. Then in both encodings the loop of lines 51-57
  runs over exactly that one entry, the extracted status is the same, and an entry that
  resolves to a name gives the single-entry map of that name to the entry's value; the
  loop of lines 122-124 runs over exactly the one item, the log-data section printed is
  the heading and the one line of that item, and \<^verbatim>\<open>logCallback\<close> prints and returns
  the same.
\<close>

theorem single_entry_bare_or_wrapped:
  assumes "truthy attr" and "\<not> isArray attr"
    and "getProp (getProp accessPoint ''accessPointAttributes'') ''attributes'' = attr"
    and "getProp (getProp accessPoint' ''accessPointAttributes'') ''attributes'' = JArr [attr]"
    and "\<And>k. k \<noteq> ''accessPointAttributes'' \<Longrightarrow> getProp accessPoint' k = getProp accessPoint k"
    and "truthy item" and "\<not> isArray item"
    and "getProp logEntry ''logData'' = item"
    and "getProp logEntry' ''logData'' = JArr [item]"
    and "\<And>k. k \<noteq> ''logData'' \<Longrightarrow> getProp logEntry' k = getProp logEntry k"
  shows "attributeEntries accessPoint = [attr]
       \<and> attributeEntries accessPoint' = [attr]
       \<and> extractFirmwareStatus rt accessPoint' = extractFirmwareStatus rt accessPoint
       \<and> (entryKey rt attr = Some key \<and> key \<noteq> ''__proto__'' \<longrightarrow>
            attributeMapOf (extractFirmwareStatus rt accessPoint) = Some [(key, attrValue attr)]
            \<and> attributeMapOf (extractFirmwareStatus rt accessPoint')
                = Some [(key, attrValue attr)])
       \<and> logDataEntries (getProp logEntry ''logData'') = [item]
       \<and> logDataEntries (getProp logEntry' ''logData'') = [item]
       \<and> drop 5 (eventLines rt logEntry) = [Inr ''\<newline>Log Data:'', logDataLine rt item]
       \<and> drop 5 (eventLines rt logEntry') = [Inr ''\<newline>Log Data:'', logDataLine rt item]
       \<and> logCallback rt ''newEvent'' logEntry' = logCallback rt ''newEvent'' logEntry"
proof -
  have ta: "truthy accessPoint"
    using assms(1,3) getProp_truthy_object [of "getProp accessPoint ''accessPointAttributes''" "''attributes''"]
      getProp_truthy_object [of accessPoint "''accessPointAttributes''"]
    by auto
  have ta': "truthy accessPoint'"
    using assms(4) getProp_truthy_object [of "getProp accessPoint' ''accessPointAttributes''" "''attributes''"]
      getProp_truthy_object [of accessPoint' "''accessPointAttributes''"]
    by auto
  note e1 = attributeEntries_single(1) [OF assms(1,2,3)]
  note e2 = attributeEntries_single(2) [OF assms(1,2,4)]
  have x: "extractFirmwareStatus rt accessPoint' = extractFirmwareStatus rt accessPoint"
    by (rule extract_same_fields [OF ta ta' _ assms(5)]) (simp add: e1 e2)
  have m: "attributeMapOf (extractFirmwareStatus rt accessPoint) = Some [(key, attrValue attr)]
            \<and> attributeMapOf (extractFirmwareStatus rt accessPoint')
                = Some [(key, attrValue attr)]"
    if "entryKey rt attr = Some key \<and> key \<noteq> ''__proto__''"
    using extract_single [OF ta e1, of rt key] that by (simp add: x)
  have d1: "logDataEntries (getProp logEntry ''logData'') = [item]"
    by (simp add: assms(8) logDataEntries_single(1) [OF assms(7)])
  have d2: "logDataEntries (getProp logEntry' ''logData'') = [item]"
    by (simp add: assms(9) logDataEntries_single(2))
  have l1: "drop 5 (eventLines rt logEntry) = [Inr ''\<newline>Log Data:'', logDataLine rt item]"
    using eventLines_logData [OF assms(6,8), of rt] d1 by (simp add: assms(8))
  have tw: "truthy (JArr [item])" by simp
  have l2: "drop 5 (eventLines rt logEntry') = [Inr ''\<newline>Log Data:'', logDataLine rt item]"
    using eventLines_logData [OF tw assms(9), of rt] by (simp add: logDataEntries_single(2))
  have ev: "eventLines rt logEntry' = eventLines rt logEntry"
    by (rule eventLines_same_fields [OF assms(6,8) tw assms(9) _ assms(10)])
      (simp add: logDataEntries_single(2) logDataEntries_single(1) [OF assms(7)])
  have lc: "logCallback rt ''newEvent'' logEntry' = logCallback rt ''newEvent'' logEntry"
    by (simp add: logCallback_def ev)
  show ?thesis
    using e1 e2 x m d1 d2 l1 l2 lc by blast
qed

text \<open>Witness for C6: the attribute \<^verbatim>\<open>{Name: "FIRMWARE_VERSION", Value: "2.1.0"}\<close> of
  the example of section 8 and the log-data item \<^verbatim>\<open>{key: "door", value: "open"}\<close>, each
  bare and wrapped; the map is \<^verbatim>\<open>{FIRMWARE_VERSION: "2.1.0"}\<close> and the line printed is
  \<^verbatim>\<open>door: open\<close> in both encodings.\<close>

theorem single_entry_witness:
  "getProp (getProp sampleAccessPoint ''accessPointAttributes'') ''attributes''
     = JObj [(''Name'', JStr ''FIRMWARE_VERSION''), (''Value'', JStr ''2.1.0'')]
   \<and> getProp (getProp sampleAccessPointWrapped ''accessPointAttributes'') ''attributes''
     = JArr [JObj [(''Name'', JStr ''FIRMWARE_VERSION''), (''Value'', JStr ''2.1.0'')]]
   \<and> getProp sampleLogEntry ''logData'' = JObj [(''key'', JStr ''door''), (''value'', JStr ''open'')]
   \<and> getProp sampleLogEntryWrapped ''logData''
     = JArr [JObj [(''key'', JStr ''door''), (''value'', JStr ''open'')]]
   \<and> extractFirmwareStatus (sampleRuntime JNull) sampleAccessPointWrapped
     = extractFirmwareStatus (sampleRuntime JNull) sampleAccessPoint
   \<and> attributeMapOf (extractFirmwareStatus (sampleRuntime JNull) sampleAccessPoint)
     = Some [(''FIRMWARE_VERSION'', JStr ''2.1.0'')]
   \<and> attributeMapOf (extractFirmwareStatus (sampleRuntime JNull) sampleAccessPointWrapped)
     = Some [(''FIRMWARE_VERSION'', JStr ''2.1.0'')]
   \<and> drop 5 (eventLines (sampleRuntime JNull) sampleLogEntry)
     = [Inr ''\<newline>Log Data:'', Inr ''   door: open'']
   \<and> drop 5 (eventLines (sampleRuntime JNull) sampleLogEntryWrapped)
     = [Inr ''\<newline>Log Data:'', Inr ''   door: open'']
   \<and> logCallback (sampleRuntime JNull) ''newEvent'' sampleLogEntryWrapped
     = logCallback (sampleRuntime JNull) ''newEvent'' sampleLogEntry"
proof -
  define attr where "attr = JObj [(''Name'', JStr ''FIRMWARE_VERSION''), (''Value'', JStr ''2.1.0'')]"
  define item where "item = JObj [(''key'', JStr ''door''), (''value'', JStr ''open'')]"
  have 1: "truthy attr" "\<not> isArray attr" "truthy item" "\<not> isArray item"
    by (simp_all add: attr_def item_def)
  have 3: "getProp (getProp sampleAccessPoint ''accessPointAttributes'') ''attributes'' = attr"
    by (simp add: sampleAccessPoint_def attr_def)
  have 4: "getProp (getProp sampleAccessPointWrapped ''accessPointAttributes'') ''attributes''
             = JArr [attr]"
    by (simp add: sampleAccessPointWrapped_def attr_def)
  have 5: "getProp sampleAccessPointWrapped k = getProp sampleAccessPoint k"
    if "k \<noteq> ''accessPointAttributes''" for k
    using that by (simp add: sampleAccessPointWrapped_def sampleAccessPoint_def)
  have 8: "getProp sampleLogEntry ''logData'' = item"
    by (simp add: sampleLogEntry_def item_def)
  have 9: "getProp sampleLogEntryWrapped ''logData'' = JArr [item]"
    by (simp add: sampleLogEntryWrapped_def item_def)
  have 10: "getProp sampleLogEntryWrapped k = getProp sampleLogEntry k"
    if "k \<noteq> ''logData''" for k
    using that by (simp add: sampleLogEntryWrapped_def sampleLogEntry_def)
  have k: "entryKey (sampleRuntime JNull) attr = Some ''FIRMWARE_VERSION''
           \<and> ''FIRMWARE_VERSION'' \<noteq> ''__proto__''"
    by (simp add: entryKey_def attr_def attrName_def jsOr_def)
  have v: "attrValue attr = JStr ''2.1.0''"
    by (simp add: attr_def attrValue_def jsOr_def)
  have l: "logDataLine (sampleRuntime JNull) item = Inr ''   door: open''"
    by (simp add: logDataLine_def item_def getMember_def jsOr_def)
  have th: "attributeEntries sampleAccessPoint = [attr]
       \<and> attributeEntries sampleAccessPointWrapped = [attr]
       \<and> extractFirmwareStatus (sampleRuntime JNull) sampleAccessPointWrapped
           = extractFirmwareStatus (sampleRuntime JNull) sampleAccessPoint
       \<and> (entryKey (sampleRuntime JNull) attr = Some ''FIRMWARE_VERSION''
            \<and> ''FIRMWARE_VERSION'' \<noteq> ''__proto__'' \<longrightarrow>
            attributeMapOf (extractFirmwareStatus (sampleRuntime JNull) sampleAccessPoint)
              = Some [(''FIRMWARE_VERSION'', attrValue attr)]
            \<and> attributeMapOf (extractFirmwareStatus (sampleRuntime JNull) sampleAccessPointWrapped)
                = Some [(''FIRMWARE_VERSION'', attrValue attr)])
       \<and> logDataEntries (getProp sampleLogEntry ''logData'') = [item]
       \<and> logDataEntries (getProp sampleLogEntryWrapped ''logData'') = [item]
       \<and> drop 5 (eventLines (sampleRuntime JNull) sampleLogEntry)
           = [Inr ''\<newline>Log Data:'', logDataLine (sampleRuntime JNull) item]
       \<and> drop 5 (eventLines (sampleRuntime JNull) sampleLogEntryWrapped)
           = [Inr ''\<newline>Log Data:'', logDataLine (sampleRuntime JNull) item]
       \<and> logCallback (sampleRuntime JNull) ''newEvent'' sampleLogEntryWrapped
           = logCallback (sampleRuntime JNull) ''newEvent'' sampleLogEntry"
    by (rule single_entry_bare_or_wrapped [OF 1(1,2) 3 4 _ 1(3,4) 8 9]) (erule 5, erule 10)
  note th' = th [unfolded v l]
  have m: "attributeMapOf (extractFirmwareStatus (sampleRuntime JNull) sampleAccessPoint)
              = Some [(''FIRMWARE_VERSION'', JStr ''2.1.0'')]
            \<and> attributeMapOf (extractFirmwareStatus (sampleRuntime JNull) sampleAccessPointWrapped)
                = Some [(''FIRMWARE_VERSION'', JStr ''2.1.0'')]"
    using th' by (elim conjE) (erule mp, rule k)
  show ?thesis
    using th' m 3 4 8 9 unfolding attr_def item_def
    by (elim conjE) (intro conjI; assumption)
qed

section \<open>Namespace prefixes\<close>

text \<open>
  Claim C7, as amended. Under the options \<^verbatim>\<open>parseXML\<close> passes, the key of an element
  is its local name: a qualified name \<^verbatim>\<open>prefix:local\<close> that does not begin with
  \<^verbatim>\<open>xmlns\<close> loses its prefix, and a name without a colon is kept. The name of an
  XML attribute is kept as written, prefix included, since no attribute-name processor
  is configured.
\<close>

theorem element_prefix_stripped:
  assumes "take 5 (pfx @ '':'' @ local) \<noteq> ''xmlns''"
    and "CHR '':'' \<notin> set local"
    and "list_all (\<lambda>c. \<not> lineBreak c) (pfx @ local)"
  shows "elementKey parserOptions (pfx @ '':'' @ local) = local
       \<and> elementKey parserOptions local = local
       \<and> attributeKey parserOptions qname = qname"
proof -
  define q where "q = pfx @ '':'' @ local"
  have l: "list_all (\<lambda>c. \<not> lineBreak c) q"
    using assms(3) by (simp add: lineBreak_def q_def)
  have tq: "takeWhile (\<lambda>c. \<not> lineBreak c) q = q"
    by (rule takeWhile_all [OF l])
  have tw: "takeWhile (\<lambda>c. c \<noteq> CHR '':'') (rev local @ CHR '':'' # rev pfx) = rev local"
    using assms(2) by (auto simp: takeWhile_tail takeWhile_eq_all_conv)
  have rq: "rev (takeWhile (\<lambda>c. c \<noteq> CHR '':'') (rev q)) = local"
    using tw by (simp add: q_def)
  have cq: "CHR '':'' \<in> set q"
    by (simp add: q_def)
  have nq: "take 5 q \<noteq> ''xmlns''"
    unfolding q_def by (rule assms(1))
  have "stripPrefix q = local"
    unfolding stripPrefix_def Let_def tq using rq cq nq by simp
  then have 1: "stripPrefix (pfx @ CHR '':'' # local) = local"
    by (simp add: q_def)
  have "CHR '':'' \<notin> set (takeWhile (\<lambda>c. \<not> lineBreak c) local)"
    using assms(2) set_takeWhileD by fastforce
  then have 2: "stripPrefix local = local"
    by (simp add: stripPrefix_def Let_def)
  show ?thesis
    by (simp add: elementKey_def attributeKey_def processItem_def parserOptions_def 1 2)
qed

text \<open>Witness for C7: \<^verbatim>\<open>soap:Envelope\<close>.\<close>

theorem element_prefix_witness:
  "take 5 ''soap:Envelope'' \<noteq> ''xmlns''
   \<and> elementKey parserOptions ''soap:Envelope'' = ''Envelope''
   \<and> elementKey parserOptions ''Envelope'' = ''Envelope''
   \<and> attributeKey parserOptions ''xsi:type'' = ''xsi:type''"
  using element_prefix_stripped [of "''soap''" "''Envelope''" "''xsi:type''"]
  by (simp add: lineBreak_def)

text \<open>Counterexample to C7 as stated: the attribute name \<^verbatim>\<open>ns:id\<close> is not
  addressable as \<^verbatim>\<open>id\<close>.\<close>

theorem attribute_prefix_counterexample:
  "attributeKey parserOptions ''ns:id'' = ''ns:id'' \<and> attributeKey parserOptions ''ns:id'' \<noteq> ''id''"
  by (simp add: attributeKey_def processItem_def parserOptions_def)

section \<open>Repeated attribute names\<close>

text \<open>
  Claim C8 says that when two entries resolve to the same name, the later value
  overwrites the earlier one in the attribute map, so that the map is determined by the
  last occurrence of each name. The code at two entries named \<^verbatim>\<open>__proto__\<close> with the
  text values \<^verbatim>\<open>a\<close> and \<^verbatim>\<open>b\<close>: the last occurrence has the value \<^verbatim>\<open>b\<close>, but
  line 55 assigns to \<^verbatim>\<open>__proto__\<close> of the plain object of line 39, which stores
  nothing, and the extracted map is empty.
\<close>

theorem proto_named_entries_are_lost:
  "lastValue (sampleRuntime JNull) (attributeEntries (accessPointWith protoEntries)) ''__proto__''
     = Some (JStr ''b'')
   \<and> extractFirmwareStatus (sampleRuntime JNull) (accessPointWith protoEntries)
       = Inr (Some (statusWith []))
   \<and> map_of (own (attributes (statusWith []))) ''__proto__'' = None"
proof -
  have "extractFirmwareStatus rt (accessPointWith protoEntries) = Inr (Some (statusWith []))" for rt
    by (rule trans [OF extractFirmwareStatus_accessPointWith [where obj = "\<lparr>own = [], proto = None\<rparr>"]])
      (simp_all add: protoEntries_def attributeEntries_accessPointWith addAttribute_def attrName_def
        attrValue_def jsOr_def setProperty_def emptyObject_def protoAccessor_def)
  then show ?thesis
    by (simp add: statusWith_def lastValue_def entryKey_def protoEntries_def
        attributeEntries_accessPointWith attrName_def attrValue_def jsOr_def)
qed

text \<open>For every other name the loop does what the claim says: the keys of the map are
  unique, and the map holds the value of the last entry that resolves to the name.\<close>

lemma later_attribute_overwrites:
  assumes "extractFirmwareStatus rt accessPoint = Inr (Some st)"
    and "key \<noteq> ''__proto__''"
  shows "distinct (map fst (own (attributes st)))
       \<and> map_of (own (attributes st)) key = lastValue rt (attributeEntries accessPoint) key"
proof -
  note f = extractFirmwareStatus_attributes [OF assms(1)]
  have "distinct (map fst (own (attributes st)))"
    using forEachAttr_distinct [OF f] by (simp add: emptyObject_def)
  moreover have "map_of (own (attributes st)) key = lastValue rt (attributeEntries accessPoint) key"
    using forEachAttr_own [OF f assms(2)] by (simp add: emptyObject_def split: option.splits)
  ultimately show ?thesis by blast
qed

lemma later_attribute_example:
  "map_of (own (attributes (statusWith [(''MODE'', JStr ''b'')]))) ''MODE'' = Some (JStr ''b'')
   \<and> lastValue (sampleRuntime JNull) (attributeEntries (accessPointWith repeatedEntries)) ''MODE''
       = Some (JStr ''b'')"
proof -
  have n: "''MODE'' \<noteq> ''__proto__''" by simp
  from later_attribute_overwrites [OF extract_repeatedEntries n, of "sampleRuntime JNull"]
  show ?thesis by (simp add: statusWith_def)
qed

section \<open>Dispatch order\<close>




section \<open>Well-formed XML that is not a SOAP envelope\<close>

text \<open>
  Claim C10. When the body parses to a tree (a truthy value, as every well-formed
  document gives) that has no \<^verbatim>\<open>Envelope\<close>, or no \<^verbatim>\<open>Body\<close> under it, the handler
  does not fail: the optional chaining gives an absent body, and the request is answered
  with status 200, the SOAP content type and the empty-body acknowledgement of lines
  184-187.
\<close>

theorem non_soap_document_acknowledged:
  assumes "parseStringPromise rt parserOptions (body req) = Inr parsed"
    and "truthy parsed"
    and "getProp parsed ''Envelope'' = JUndefined
         \<or> getProp (getProp parsed ''Envelope'') ''Body'' = JUndefined"
  shows "optChain (getProp parsed ''Envelope'') ''Body'' = JUndefined
       \<and> statusCode (postHandler rt req) = 200
       \<and> contentType (postHandler rt req) = Some soapContentType
       \<and> payload (postHandler rt req) = unknownResponse"
proof -
  have b: "optChain (getProp parsed ''Envelope'') ''Body'' = JUndefined"
    using assms(3) by (auto simp: optChain_def)
  have "dispatch rt parsed =
     sendSoap unknownResponse [''Unknown callback type'', ''Body: '' @ jsonStringify rt JUndefined]"
    using dispatch_unknown [of parsed rt] by (simp add: b optChain_simps)
  then show ?thesis
    using postHandler_parsed [OF assms(1,2)] b by (simp add: sendSoap_def)
qed

text \<open>Witness for C10: the document \<^verbatim>\<open><note>hello</note>\<close>.\<close>

theorem non_soap_document_witness:
  "parseStringPromise (sampleRuntime noteTree) parserOptions (body sampleRequest) = Inr noteTree
   \<and> truthy noteTree
   \<and> getProp noteTree ''Envelope'' = JUndefined
   \<and> statusCode (postHandler (sampleRuntime noteTree) sampleRequest) = 200
   \<and> contentType (postHandler (sampleRuntime noteTree) sampleRequest) = Some soapContentType
   \<and> payload (postHandler (sampleRuntime noteTree) sampleRequest) = unknownResponse"
proof -
  have p: "parseStringPromise (sampleRuntime noteTree) parserOptions (body sampleRequest)
             = Inr noteTree"
    by (rule sampleRuntime_parse)
  have t: "truthy noteTree" by (simp add: noteTree_def)
  have e: "getProp noteTree ''Envelope'' = JUndefined" by (simp add: noteTree_def)
  from e have d: "getProp noteTree ''Envelope'' = JUndefined
         \<or> getProp (getProp noteTree ''Envelope'') ''Body'' = JUndefined" ..
  show ?thesis
    using p t e non_soap_document_acknowledged [OF p t d] by blast
qed

end
